theory Spec2Isabelle
  imports Complex_Main
begin

section \<open>Python values and errors\<close>

text \<open>
  Floating-point numbers are modelled as real numbers; a missing value (NaN) is
  \<open>None\<close>.  An exception that leaves a function is a value \<open>Inl e\<close> of the
  result.
\<close>

datatype error = ZeroDivisionError | ValueError | IndexError | KeyError | TypeError | OSError

type_synonym ndarray = "real option list"

definition isnan :: "real option \<Rightarrow> bool" where
  "isnan v = (v = None)"

text \<open>Comparisons with a NaN operand are false.\<close>

definition float_gt :: "real option \<Rightarrow> real \<Rightarrow> bool" where
  "float_gt v t = (case v of None \<Rightarrow> False | Some e \<Rightarrow> t < e)"

definition float_lt :: "real option \<Rightarrow> real \<Rightarrow> bool" where
  "float_lt v t = (case v of None \<Rightarrow> False | Some e \<Rightarrow> e < t)"

definition float_eq :: "real option \<Rightarrow> real \<Rightarrow> bool" where
  "float_eq v t = (case v of None \<Rightarrow> False | Some e \<Rightarrow> e = t)"

text \<open>Division of two Python numbers: a zero divisor raises.\<close>

definition py_div :: "real \<Rightarrow> real \<Rightarrow> error + real" where
  "py_div a b = (if b = 0 then Inl ZeroDivisionError else Inr (a / b))"

text \<open>\<open>np.clip(x, lo, hi)\<close> is \<open>minimum(maximum(x, lo), hi)\<close>.\<close>

definition clip :: "real \<Rightarrow> real \<Rightarrow> real \<Rightarrow> real" where
  "clip x lo hi = min (max x lo) hi"

section \<open>Percentiles of the valid samples\<close>

text \<open>
  \<open>np.nanpercentile(a, q)\<close> with its default (linear) method: \<open>q\<close> is divided by
  100 and must lie in \<open>[0, 1]\<close>, else ValueError; the NaN entries are dropped and the
  rest sorted; the virtual index \<open>(n - 1) * q\<close> is split into its floor and the
  fraction \<open>gamma\<close>, the upper neighbour is capped at the last index, and the result
  interpolates linearly between the two order statistics.  A slice with no valid entry
  gives NaN.
\<close>

definition valid :: "ndarray \<Rightarrow> real list" where
  "valid a = map the (filter (\<lambda>v. \<not> isnan v) a)"

definition lerp :: "real \<Rightarrow> real \<Rightarrow> real \<Rightarrow> real" where
  "lerp a b t = a + (b - a) * t"

definition linear_quantile :: "real list \<Rightarrow> real \<Rightarrow> real" where
  "linear_quantile arr q =
     (let virtual_index = real (length arr - 1) * q;
          previous_index = nat \<lfloor>virtual_index\<rfloor>;
          next_index = min (previous_index + 1) (length arr - 1);
          gamma = virtual_index - real previous_index
      in lerp (arr ! previous_index) (arr ! next_index) gamma)"

definition nanpercentile :: "ndarray \<Rightarrow> real \<Rightarrow> error + real option" where
  "nanpercentile a q =
     (if \<not> (0 \<le> q / 100 \<and> q / 100 \<le> 1) then Inl ValueError
      else let arr = sort (valid a)
           in if arr = [] then Inr None
              else Inr (Some (linear_quantile arr (q / 100))))"

section \<open>calculate_sla_bounds\<close>

text \<open>
  The row of the snow cover statistics table that the function reads, the elevation
  model and the snow cover mask as ravelled arrays of the same grid, and the pixel
  size \<open>dx\<close>.
\<close>

record stats_row =
  AAR :: real
  ELA_from_AAR_m :: real

text \<open>Glacier area: the number of cells whose elevation is not NaN, times \<open>dx\<^sup>2\<close>.\<close>

definition npx :: "ndarray \<Rightarrow> nat" where
  "npx dem = length (filter (\<lambda>v. \<not> isnan v) dem)"

definition total_area :: "ndarray \<Rightarrow> real \<Rightarrow> real" where
  "total_area dem dx = real (npx dem) * dx\<^sup>2"

text \<open>
  The two masks of misclassified pixels, \<open>xr.where(cond, 1, 0)\<close>, and their areas:
  the number of entries equal to 1, times \<open>dx\<^sup>2\<close>.
\<close>

definition snow_free_above_sla :: "real \<Rightarrow> ndarray \<Rightarrow> ndarray \<Rightarrow> nat list" where
  "snow_free_above_sla sla dem snow_cover_mask =
     map2 (\<lambda>d m. if float_gt d sla \<and> float_eq m 0 then 1 else 0) dem snow_cover_mask"

definition snow_covered_below_sla :: "real \<Rightarrow> ndarray \<Rightarrow> ndarray \<Rightarrow> nat list" where
  "snow_covered_below_sla sla dem snow_cover_mask =
     map2 (\<lambda>d m. if float_lt d sla \<and> float_eq m 1 then 1 else 0) dem snow_cover_mask"

definition snow_free_above_sla_area :: "real \<Rightarrow> ndarray \<Rightarrow> ndarray \<Rightarrow> real \<Rightarrow> real" where
  "snow_free_above_sla_area sla dem snow_cover_mask dx =
     real (length (filter (\<lambda>v. v = 1) (snow_free_above_sla sla dem snow_cover_mask))) * dx\<^sup>2"

definition snow_covered_below_sla_area :: "real \<Rightarrow> ndarray \<Rightarrow> ndarray \<Rightarrow> real \<Rightarrow> real" where
  "snow_covered_below_sla_area sla dem snow_cover_mask dx =
     real (length (filter (\<lambda>v. v = 1) (snow_covered_below_sla sla dem snow_cover_mask))) * dx\<^sup>2"

text \<open>
  Lines 106 to 129 of the function: the adjusted and clipped percentiles, as the pair
  \<open>(upper_sla_percentile, lower_sla_percentile)\<close>.
\<close>

definition sla_percentiles ::
  "stats_row \<Rightarrow> ndarray \<Rightarrow> ndarray \<Rightarrow> real \<Rightarrow> error + (real \<times> real)" where
  "sla_percentiles stats_df dem snow_cover_mask dx =
     (let aar = AAR stats_df;
          sla = ELA_from_AAR_m stats_df;
          sla_percentile = 1 - aar
      in case py_div (snow_free_above_sla_area sla dem snow_cover_mask dx) (total_area dem dx) of
           Inl e \<Rightarrow> Inl e
         | Inr delta_up \<Rightarrow>
        (case py_div (snow_covered_below_sla_area sla dem snow_cover_mask dx) (total_area dem dx) of
           Inl e \<Rightarrow> Inl e
         | Inr delta_down \<Rightarrow>
             Inr (clip (sla_percentile + delta_up) 0 1, clip (sla_percentile - delta_down) 0 1)))"

text \<open>
  The whole function; the result is the triple
  \<open>(sla, sla_upper_bound, sla_lower_bound)\<close> in the order of the return statement.
\<close>

definition calculate_sla_bounds ::
  "stats_row \<Rightarrow> ndarray \<Rightarrow> ndarray \<Rightarrow> real \<Rightarrow> error + (real \<times> real option \<times> real option)" where
  "calculate_sla_bounds stats_df dem snow_cover_mask dx =
     (case sla_percentiles stats_df dem snow_cover_mask dx of
        Inl e \<Rightarrow> Inl e
      | Inr (upper_sla_percentile, lower_sla_percentile) \<Rightarrow>
     (case nanpercentile dem (upper_sla_percentile * 100) of
        Inl e \<Rightarrow> Inl e
      | Inr sla_upper_bound \<Rightarrow>
     (case nanpercentile dem (lower_sla_percentile * 100) of
        Inl e \<Rightarrow> Inl e
      | Inr sla_lower_bound \<Rightarrow>
          Inr (ELA_from_AAR_m stats_df, sla_upper_bound, sla_lower_bound))))"

text \<open>
  The total valid area in the words of the specification, for comparison with
  \<open>total_area\<close>: the cells where neither field is missing, times \<open>dx\<^sup>2\<close>.
\<close>

definition spec_total_valid_area :: "ndarray \<Rightarrow> ndarray \<Rightarrow> real \<Rightarrow> real" where
  "spec_total_valid_area dem snow_cover_mask dx =
     real (length (filter (\<lambda>(d, m). \<not> isnan d \<and> \<not> isnan m) (zip dem snow_cover_mask))) * dx\<^sup>2"


section \<open>Tables, paths and the file system\<close>

text \<open>
  A \<open>pandas.DataFrame\<close> of numbers: the column names and the rows.  \<open>data[cols]\<close>
  selects columns by name and raises when a name is not a column; the model keeps the
  values of the selection.  \<open>frame.iloc[ix]\<close> selects rows by position and raises on
  a position outside the table.
\<close>

record dataframe =
  columns :: "string list"
  rows :: "real list list"

fun column_index :: "string list \<Rightarrow> string \<Rightarrow> nat" where
  "column_index [] c = 0"
| "column_index (x # xs) c = (if x = c then 0 else Suc (column_index xs c))"

definition getitem :: "dataframe \<Rightarrow> string list \<Rightarrow> error + real list list" where
  "getitem data cols =
     (if list_all (\<lambda>c. c \<in> set (columns data)) cols
      then Inr (map (\<lambda>row. map (\<lambda>c. row ! column_index (columns data) c) cols) (rows data))
      else Inl KeyError)"

definition iloc :: "'a list \<Rightarrow> nat list \<Rightarrow> error + 'a list" where
  "iloc frame ix =
     (if list_all (\<lambda>i. i < length frame) ix then Inr (map (\<lambda>i. frame ! i) ix)
      else Inl IndexError)"

text \<open>\<open>np.ravel\<close> of a two-dimensional array of values.\<close>

definition ravel :: "real list list \<Rightarrow> real list" where
  "ravel values = concat values"

text \<open>\<open>os.path.join\<close> of a directory and a file name (POSIX).\<close>

definition path_join :: "string \<Rightarrow> string \<Rightarrow> string" where
  "path_join a b =
     (if b \<noteq> [] \<and> hd b = CHR ''/'' then b
      else if a = [] \<or> last a = CHR ''/'' then a @ b
      else a @ ''/'' @ b)"

text \<open>
  \<open>os.path.dirname\<close> (POSIX): the part of a path up to its last separator, without
  trailing separators unless it consists of separators only.
\<close>

definition dirname :: "string \<Rightarrow> string" where
  "dirname p =
     (let head = rev (dropWhile (\<lambda>c. c \<noteq> CHR ''/'') (rev p))
      in if head \<noteq> [] \<and> \<not> list_all (\<lambda>c. c = CHR ''/'') head
         then rev (dropWhile (\<lambda>c. c = CHR ''/'') (rev head))
         else head)"

text \<open>
  The file system: \<open>os.path.exists\<close> and \<open>os.path.isdir\<close>.  Writing a file raises
  OSError when the directory of its path is not a directory; the empty directory name
  stands for the working directory.  Other causes of a failed write are not modelled.
\<close>

record filesystem =
  os_path_exists :: "string \<Rightarrow> bool"
  os_path_isdir :: "string \<Rightarrow> bool"

definition can_write :: "filesystem \<Rightarrow> string \<Rightarrow> bool" where
  "can_write fs target = (dirname target = [] \<or> os_path_isdir fs (dirname target))"

section \<open>The scikit-learn interface\<close>

text \<open>
  The labels handed to \<open>fit\<close> are a ravelled one-dimensional array inside the folds
  and the two-dimensional label table in the final fit.
\<close>

datatype labels = Y1d "real list" | Y2d "real list list"

text \<open>
  The library functions the two pipelines call, as a parameter: an estimator is a
  value of type \<open>'m\<close>, \<open>fit\<close> returns the estimator it has mutated, the metrics
  take \<open>y_test\<close> and \<open>y_pred\<close>, and \<open>KFold_split n_splits random_state n_samples\<close>
  is the list of \<open>(train_ix, test_ix)\<close> that
  \<open>KFold(n_splits, shuffle=True, random_state).split\<close> yields for a table of
  \<open>n_samples\<close> rows, or the error it raises.
\<close>

record 'm sklearn =
  fit :: "'m \<Rightarrow> real list list \<Rightarrow> labels \<Rightarrow> 'm"
  predict :: "'m \<Rightarrow> real list list \<Rightarrow> real list"
  mean_absolute_error :: "real list \<Rightarrow> real list \<Rightarrow> real"
  mean_squared_error :: "real list \<Rightarrow> real list \<Rightarrow> real"
  mean_absolute_percentage_error :: "real list \<Rightarrow> real list \<Rightarrow> real"
  max_error :: "real list \<Rightarrow> real list \<Rightarrow> real"
  r2_score :: "real list \<Rightarrow> real list \<Rightarrow> real"
  KFold_split :: "nat \<Rightarrow> nat \<Rightarrow> nat \<Rightarrow> error + (nat list \<times> nat list) list"
  permutation_importance :: "'m \<Rightarrow> real list list \<Rightarrow> labels \<Rightarrow> nat \<Rightarrow> nat \<Rightarrow> real list list"

section \<open>determine_best_model\<close>

text \<open>
  The per-fold metric arrays of one candidate.  \<open>rsq_folds\<close> starts as an array of
  zeros and is rebound to a number inside the fold loop.
\<close>

datatype array_or_scalar = Array "real list" | Scalar real

record fold_metrics =
  mean_abs_err_folds :: "real list"
  mean_sq_err_folds :: "real list"
  mean_abs_percentage_err_folds :: "real list"
  max_err_folds :: "real list"
  rsq_folds :: array_or_scalar

definition zero_fold_metrics :: "nat \<Rightarrow> fold_metrics" where
  "zero_fold_metrics num_folds =
     \<lparr>mean_abs_err_folds = replicate num_folds 0,
      mean_sq_err_folds = replicate num_folds 0,
      mean_abs_percentage_err_folds = replicate num_folds 0,
      max_err_folds = replicate num_folds 0,
      rsq_folds = Array (replicate num_folds 0)\<rparr>"

text \<open>\<open>np.nanmean\<close> of an array of numbers, or of a single number.\<close>

fun nanmean :: "array_or_scalar \<Rightarrow> real" where
  "nanmean (Array a) = sum_list a / real (length a)"
| "nanmean (Scalar v) = v"

text \<open>
  The loop over the folds (lines 421 to 441), with the fold counter \<open>j\<close>, the
  estimator and the metric arrays as state.  The first indexed assignment raises when
  \<open>j\<close> is outside the arrays, which all have \<open>num_folds\<close> entries.
\<close>

fun fold_loop ::
  "'m sklearn \<Rightarrow> real list list \<Rightarrow> real list list \<Rightarrow> (nat list \<times> nat list) list \<Rightarrow> nat
     \<Rightarrow> 'm \<Rightarrow> fold_metrics \<Rightarrow> error + ('m \<times> fold_metrics)" where
  "fold_loop api X y [] j model fm = Inr (model, fm)"
| "fold_loop api X y ((train_ix, test_ix) # splits) j model fm =
     (case iloc X train_ix of Inl e \<Rightarrow> Inl e | Inr X_train \<Rightarrow>
     (case iloc X test_ix of Inl e \<Rightarrow> Inl e | Inr X_test \<Rightarrow>
     (case iloc y train_ix of Inl e \<Rightarrow> Inl e | Inr y_train_rows \<Rightarrow>
     (case iloc y test_ix of Inl e \<Rightarrow> Inl e | Inr y_test_rows \<Rightarrow>
        (let y_train = ravel y_train_rows;
             y_test = ravel y_test_rows;
             model' = fit api model X_train (Y1d y_train);
             y_pred = predict api model' X_test
         in if j < length (mean_abs_err_folds fm)
            then fold_loop api X y splits (j + 1) model'
                   (fm\<lparr>mean_abs_err_folds :=
                         (mean_abs_err_folds fm)[j := mean_absolute_error api y_test y_pred],
                       mean_sq_err_folds :=
                         (mean_sq_err_folds fm)[j := mean_squared_error api y_test y_pred],
                       mean_abs_percentage_err_folds :=
                         (mean_abs_percentage_err_folds fm)
                           [j := mean_absolute_percentage_error api y_test y_pred],
                       max_err_folds := (max_err_folds fm)[j := max_error api y_test y_pred],
                       rsq_folds := Scalar (r2_score api y_test y_pred)\<rparr>)
            else Inl IndexError)))))"

text \<open>
  The partition of one candidate: \<open>KFold(n_splits=num_folds, shuffle=True,
  random_state=1).split(X)\<close>.  The constructor raises for fewer than two splits.
\<close>

definition kfold_split :: "'m sklearn \<Rightarrow> nat \<Rightarrow> real list list \<Rightarrow> error + (nat list \<times> nat list) list" where
  "kfold_split api num_folds X =
     (if num_folds < 2 then Inl ValueError else KFold_split api num_folds 1 (length X))"

text \<open>
  The body of the loop over the models (lines 413 to 448) for one candidate: the
  estimator after its folds and the five aggregates in the order mean absolute error,
  mean squared error, mean absolute percentage error, maximum error, R squared.
\<close>

definition evaluate_model ::
  "'m sklearn \<Rightarrow> real list list \<Rightarrow> real list list \<Rightarrow> nat \<Rightarrow> 'm
     \<Rightarrow> error + ('m \<times> real \<times> real \<times> real \<times> real \<times> real)" where
  "evaluate_model api X y num_folds model =
     (case kfold_split api num_folds X of Inl e \<Rightarrow> Inl e | Inr splits \<Rightarrow>
     (case fold_loop api X y splits 0 model (zero_fold_metrics num_folds) of
        Inl e \<Rightarrow> Inl e
      | Inr (model', fm) \<Rightarrow>
          Inr (model',
               nanmean (Array (mean_abs_err_folds fm)),
               nanmean (Array (mean_sq_err_folds fm)),
               nanmean (rsq_folds fm),
               nanmean (Array (max_err_folds fm)),
               nanmean (rsq_folds fm))))"

record performances =
  mean_abs_err :: "real list"
  mean_sq_err :: "real list"
  mean_abs_percentage_err :: "real list"
  max_err :: "real list"
  rsq :: "real list"

definition zero_performances :: "nat \<Rightarrow> performances" where
  "zero_performances n =
     \<lparr>mean_abs_err = replicate n 0, mean_sq_err = replicate n 0,
      mean_abs_percentage_err = replicate n 0, max_err = replicate n 0,
      rsq = replicate n 0\<rparr>"

text \<open>
  The loop over \<open>enumerate(zip(model_names, models))\<close>, with the index \<open>i\<close>, the
  estimators (which \<open>fit\<close> mutates in place) and the aggregate arrays as state.
\<close>

fun model_loop ::
  "'m sklearn \<Rightarrow> real list list \<Rightarrow> real list list \<Rightarrow> nat \<Rightarrow> (string \<times> 'm) list \<Rightarrow> nat
     \<Rightarrow> 'm list \<Rightarrow> performances \<Rightarrow> error + ('m list \<times> performances)" where
  "model_loop api X y num_folds [] i models perf = Inr (models, perf)"
| "model_loop api X y num_folds ((name, model) # rest) i models perf =
     (case evaluate_model api X y num_folds model of
        Inl e \<Rightarrow> Inl e
      | Inr (model', mae, mse, mape, mx, r2) \<Rightarrow>
          model_loop api X y num_folds rest (i + 1) (models[i := model'])
            (perf\<lparr>mean_abs_err := (mean_abs_err perf)[i := mae],
                  mean_sq_err := (mean_sq_err perf)[i := mse],
                  mean_abs_percentage_err := (mean_abs_percentage_err perf)[i := mape],
                  max_err := (max_err perf)[i := mx],
                  rsq := (rsq perf)[i := r2]\<rparr>))"

text \<open>
  \<open>np.argwhere(a == np.min(a))[0][0]\<close>: the minimum of an empty array raises, and
  the first position holding the minimum is taken.
\<close>

fun first_index :: "real list \<Rightarrow> real \<Rightarrow> nat option" where
  "first_index [] v = None"
| "first_index (x # xs) v = (if x = v then Some 0 else map_option Suc (first_index xs v))"

definition argmin_first :: "real list \<Rightarrow> error + nat" where
  "argmin_first a =
     (if a = [] then Inl ValueError
      else case first_index a (Min (set a)) of None \<Rightarrow> Inl IndexError | Some i \<Rightarrow> Inr i)"

text \<open>
  What the functions leave behind: files written and the messages about them.  The
  progress messages with the metric values are not recorded.
\<close>

datatype 'm effect =
    Saved_performances string "string list" performances
  | Saved_model string 'm
  | Saved_importances string "(string \<times> real list) list"
  | Saved_figure string
  | Printed string

text \<open>
  The function returns its result, or the error that left it, and the effects up to
  that point.
\<close>

definition determine_best_model ::
  "'m sklearn \<Rightarrow> filesystem \<Rightarrow> dataframe \<Rightarrow> 'm list \<Rightarrow> string list \<Rightarrow> string list
     \<Rightarrow> string list \<Rightarrow> string \<Rightarrow> string \<Rightarrow> bool \<Rightarrow> string \<Rightarrow> nat
     \<Rightarrow> (error + ('m \<times> real list list \<times> real list list)) \<times> 'm effect list" where
  "determine_best_model api fs data models model_names feature_columns labels out_path
      best_model_fn save_performances performances_fn num_folds =
     (case getitem data feature_columns of Inl e \<Rightarrow> (Inl e, []) | Inr X \<Rightarrow>
     (case getitem data labels of Inl e \<Rightarrow> (Inl e, []) | Inr y \<Rightarrow>
     (case model_loop api X y num_folds (zip model_names models) 0 models
              (zero_performances (length models)) of
        Inl e \<Rightarrow> (Inl e, [])
      | Inr (models', perf) \<Rightarrow>
     (case (if save_performances
            then (if length model_names \<noteq> length models then Inl ValueError
                  else if \<not> can_write fs (path_join out_path performances_fn) then Inl OSError
                  else Inr [Saved_performances (path_join out_path performances_fn) model_names perf,
                            Printed (''Evaluation metrics for all models saved to file: ''
                                       @ path_join out_path performances_fn)])
            else Inr []) of
        Inl e \<Rightarrow> (Inl e, [])
      | Inr saved \<Rightarrow>
     (case argmin_first (mean_abs_err perf) of Inl e \<Rightarrow> (Inl e, saved) | Inr ibest \<Rightarrow>
        (let best_model = models' ! ibest
         in if \<not> ibest < length model_names then (Inl IndexError, saved)
            else let best_model_retrained = fit api best_model X (Y2d y)
                 in if \<not> can_write fs (path_join out_path best_model_fn)
                    then (Inl OSError, saved)
                    else (Inr (best_model_retrained, X, y),
                          saved @ [Saved_model (path_join out_path best_model_fn) best_model_retrained,
                                   Printed (''Most accurate model retrained and saved to file: ''
                                              @ path_join out_path best_model_fn)])))))))"

section \<open>assess_model_feature_importances\<close>

text \<open>
  The table of importances: column \<open>i\<close> of the table is row \<open>i\<close> of the importances
  array, which raises when there are more feature columns than rows.
\<close>

fun importances_frame :: "string list \<Rightarrow> real list list \<Rightarrow> error + (string \<times> real list) list" where
  "importances_frame [] imps = Inr []"
| "importances_frame (column # cs) [] = Inl IndexError"
| "importances_frame (column # cs) (r # rs) =
     (case importances_frame cs rs of Inl e \<Rightarrow> Inl e | Inr df \<Rightarrow> Inr ((column, r) # df))"

text \<open>
  The plot of lines 526 to 542 is a parameter: \<open>plot df labels\<close> is the error that
  drawing the box plot of the table with the tick labels raises, if any.  A display
  list that is absent or empty is replaced by the feature columns.
  \<open>os.path.exists(None)\<close> raises TypeError, so an output path that was not given is
  an error here.
\<close>

definition assess_model_feature_importances ::
  "'m sklearn \<Rightarrow> ((string \<times> real list) list \<Rightarrow> string list \<Rightarrow> error option) \<Rightarrow> filesystem
     \<Rightarrow> 'm \<Rightarrow> real list list \<Rightarrow> labels \<Rightarrow> string list \<Rightarrow> string list option
     \<Rightarrow> string option \<Rightarrow> string \<Rightarrow> string option \<Rightarrow> string \<Rightarrow> nat \<Rightarrow> nat
     \<Rightarrow> (error + real list list) \<times> 'm effect list" where
  "assess_model_feature_importances api plot fs model X y feature_columns
      feature_columns_display out_path importances_fn figure_out_path figure_fn
      n_repeats random_state =
     (let display = (case feature_columns_display of
                       None \<Rightarrow> feature_columns
                     | Some d \<Rightarrow> if d = [] then feature_columns else d);
          feature_importances = permutation_importance api model X y n_repeats random_state
      in case importances_frame feature_columns feature_importances of
           Inl e \<Rightarrow> (Inl e, [])
         | Inr feature_importances_df \<Rightarrow>
        (case plot feature_importances_df display of
           Some e \<Rightarrow> (Inl e, [])
         | None \<Rightarrow>
        (case out_path of
           None \<Rightarrow> (Inl TypeError, [])
         | Some out \<Rightarrow>
             if os_path_exists fs out
             then (let feature_importances_fn = path_join out importances_fn;
                       saved = [Saved_importances feature_importances_fn feature_importances_df,
                                Printed (''importances data frame saved to file: ''
                                           @ feature_importances_fn)]
                   in if \<not> can_write fs feature_importances_fn then (Inl OSError, [])
                      else case figure_out_path of
                        None \<Rightarrow> (Inl TypeError, saved)
                      | Some fig_out \<Rightarrow>
                          if os_path_exists fs fig_out
                          then (if \<not> can_write fs (path_join fig_out figure_fn)
                                then (Inl OSError, saved)
                                else (Inr feature_importances,
                                      saved @ [Saved_figure (path_join fig_out figure_fn),
                                               Printed (''figure saved to file: ''
                                                          @ path_join fig_out figure_fn)]))
                          else (Inr feature_importances,
                                saved @ [Printed ''Variable figure_out_path not valid path in directory, not saving figure...'']))
             else (Inr feature_importances,
                   [Printed ''Variable out_path not valid path in directory, not saving output dataframe...'']))))"

section \<open>An instance of the interface\<close>

text \<open>
  A regressor that predicts a constant, as \<open>DummyRegressor(strategy="constant")\<close>
  does; it remembers the number of rows of its last fit.  The metrics follow their
  definitions in the library for arrays of at least two entries.
\<close>

datatype dummy_regressor = Dummy real nat

fun dummy_fit :: "dummy_regressor \<Rightarrow> real list list \<Rightarrow> labels \<Rightarrow> dummy_regressor" where
  "dummy_fit (Dummy c n) X y = Dummy c (length X)"

fun dummy_predict :: "dummy_regressor \<Rightarrow> real list list \<Rightarrow> real list" where
  "dummy_predict (Dummy c n) X = replicate (length X) c"

definition metric_mae :: "real list \<Rightarrow> real list \<Rightarrow> real" where
  "metric_mae y_true y_pred = sum_list (map2 (\<lambda>a b. \<bar>a - b\<bar>) y_true y_pred) / real (length y_true)"

definition metric_mse :: "real list \<Rightarrow> real list \<Rightarrow> real" where
  "metric_mse y_true y_pred = sum_list (map2 (\<lambda>a b. (a - b)\<^sup>2) y_true y_pred) / real (length y_true)"

definition metric_mape :: "real list \<Rightarrow> real list \<Rightarrow> real" where
  "metric_mape y_true y_pred =
     sum_list (map2 (\<lambda>a b. \<bar>a - b\<bar> / max \<bar>a\<bar> (1 / 2 ^ 52)) y_true y_pred) / real (length y_true)"

definition metric_max_error :: "real list \<Rightarrow> real list \<Rightarrow> real" where
  "metric_max_error y_true y_pred = Max (set (map2 (\<lambda>a b. \<bar>a - b\<bar>) y_true y_pred))"

definition metric_r2 :: "real list \<Rightarrow> real list \<Rightarrow> real" where
  "metric_r2 y_true y_pred =
     (let numerator = sum_list (map2 (\<lambda>a b. (a - b)\<^sup>2) y_true y_pred);
          denominator =
            sum_list (map (\<lambda>a. (a - sum_list y_true / real (length y_true))\<^sup>2) y_true)
      in if numerator = 0 then 1
         else if denominator = 0 then 0
         else 1 - numerator / denominator)"

text \<open>
  The partition is the library's own for a table of four rows.  The order in which
  numpy's generator (the Mersenne Twister seeded with the integer, then the legacy
  shuffle) leaves the positions 0 to 3 is recorded for the seeds 0 to 7.  The folds
  are cut from it as \<open>KFold\<close> does: the first \<open>n_samples mod n_splits\<close> folds have
  one position more, the test positions of a fold are sorted, and the training
  positions are the others.  The instance raises outside the recorded cases.
\<close>

definition shuffled_positions :: "nat \<Rightarrow> nat \<Rightarrow> nat list option" where
  "shuffled_positions random_state n_samples =
     (if n_samples = 4
      then map_of [(0, [2, 3, 1, 0]), (1, [3, 2, 0, 1]), (2, [2, 3, 1, 0]), (3, [3, 1, 0, 2]),
                   (4, [0, 1, 3, 2]), (5, [0, 1, 2, 3]), (6, [0, 3, 1, 2]), (7, [2, 1, 0, 3])]
             random_state
      else None)"

fun chunks :: "nat list \<Rightarrow> 'a list \<Rightarrow> 'a list list" where
  "chunks [] xs = []"
| "chunks (s # ss) xs = take s xs # chunks ss (drop s xs)"

definition recorded_split :: "nat \<Rightarrow> nat \<Rightarrow> nat \<Rightarrow> error + (nat list \<times> nat list) list" where
  "recorded_split n_splits random_state n_samples =
     (if n_splits < 2 \<or> n_samples < n_splits then Inl ValueError
      else case shuffled_positions random_state n_samples of
             None \<Rightarrow> Inl ValueError
           | Some indices \<Rightarrow>
               (let fold_sizes = map (\<lambda>k. n_samples div n_splits
                                            + (if k < n_samples mod n_splits then 1 else 0))
                                     [0..<n_splits]
                in Inr (map (\<lambda>test. (filter (\<lambda>i. i \<notin> set test) [0..<n_samples], sort test))
                            (chunks fold_sizes indices))))"

fun dummy_importance ::
  "dummy_regressor \<Rightarrow> real list list \<Rightarrow> labels \<Rightarrow> nat \<Rightarrow> nat \<Rightarrow> real list list" where
  "dummy_importance m [] y n_repeats random_state = []"
| "dummy_importance m (row # X) y n_repeats random_state =
     replicate (length row) (replicate n_repeats 0)"

definition dummy_sklearn :: "dummy_regressor sklearn" where
  "dummy_sklearn =
     \<lparr>fit = dummy_fit, predict = dummy_predict,
      mean_absolute_error = metric_mae, mean_squared_error = metric_mse,
      mean_absolute_percentage_error = metric_mape, max_error = metric_max_error,
      r2_score = metric_r2,
      KFold_split = recorded_split, permutation_importance = dummy_importance\<rparr>"

text \<open>
  The box plot raises for a table without columns and for tick labels that are not as
  many as the columns.
\<close>

definition box_plot :: "(string \<times> real list) list \<Rightarrow> string list \<Rightarrow> error option" where
  "box_plot df ticklabels =
     (if df = [] then Some TypeError
      else if length ticklabels \<noteq> length df then Some ValueError
      else None)"

text \<open>A table of four rows with one feature column and one label column.\<close>

definition four_rows :: dataframe where
  "four_rows = \<lparr>columns = [''x'', ''y''], rows = [[10, 1], [20, 2], [30, 3], [40, 4]]\<rparr>"

text \<open>
  Three candidates with their names, a file system whose only directory is \<open>out\<close>,
  and one without directories.
\<close>

definition three_dummies :: "dummy_regressor list" where
  "three_dummies = [Dummy 0 0, Dummy 2 0, Dummy 3 0]"

definition three_names :: "string list" where
  "three_names = [''zero'', ''two'', ''three'']"

definition only_out :: filesystem where
  "only_out = \<lparr>os_path_exists = (\<lambda>p. p = ''out''), os_path_isdir = (\<lambda>p. p = ''out'')\<rparr>"

definition no_directory :: filesystem where
  "no_directory = \<lparr>os_path_exists = (\<lambda>p. False), os_path_isdir = (\<lambda>p. False)\<rparr>"


section \<open>Properties of the percentile\<close>








lemma linear_quantile_one:
  assumes "sorted arr" "arr \<noteq> []"
  shows "linear_quantile arr 1 = Max (set arr)"
proof -
  have "linear_quantile arr 1 = arr ! (length arr - 1)"
    by (simp add: linear_quantile_def Let_def lerp_def)
  also have "\<dots> = last arr" using assms(2) by (simp add: last_conv_nth)
  finally have eq: "linear_quantile arr 1 = last arr" .
  have "Max (set arr) = last arr"
  proof (rule Max_eqI)
    show "finite (set arr)" by simp
    show "last arr \<in> set arr" using assms(2) by simp
    fix y assume "y \<in> set arr"
    then obtain i where i: "i < length arr" "arr ! i = y" by (auto simp: in_set_conv_nth)
    have "arr ! i \<le> arr ! (length arr - 1)"
      using assms i by (intro sorted_nth_mono) auto
    then show "y \<le> last arr" using i assms(2) by (simp add: last_conv_nth)
  qed
  with eq show ?thesis by simp
qed

section \<open>Properties of calculate_sla_bounds\<close>

lemmas sla_defs = calculate_sla_bounds_def sla_percentiles_def py_div_def total_area_def npx_def isnan_def
      snow_free_above_sla_area_def snow_covered_below_sla_area_def snow_free_above_sla_def snow_covered_below_sla_def
      float_gt_def float_lt_def float_eq_def clip_def nanpercentile_def valid_def linear_quantile_def lerp_def Let_def

lemma total_area_nonzero: "valid dem \<noteq> [] \<Longrightarrow> dx \<noteq> 0 \<Longrightarrow> 0 < total_area dem dx"
  by (simp add: total_area_def npx_def valid_def)


lemma clip_unit: "0 \<le> clip x 0 1" "clip x 0 1 \<le> 1"
  by (simp_all add: clip_def)


lemma nanpercentile_valid:
  assumes "valid dem \<noteq> []" "0 \<le> q" "q \<le> 1"
  shows "nanpercentile dem (q * 100) = Inr (Some (linear_quantile (sort (valid dem)) q))"
proof -
  have "sort (valid dem) \<noteq> []" using assms(1) by (metis length_sort length_0_conv)
  then show ?thesis using assms(2,3) by (simp add: nanpercentile_def Let_def)
qed


lemma sla_percentiles_valid:
  assumes "valid dem \<noteq> []" "dx \<noteq> 0"
  shows "sla_percentiles stats dem m dx =
     Inr (clip (1 - AAR stats + snow_free_above_sla_area (ELA_from_AAR_m stats) dem m dx / total_area dem dx) 0 1,
          clip (1 - AAR stats - snow_covered_below_sla_area (ELA_from_AAR_m stats) dem m dx / total_area dem dx) 0 1)"
  using total_area_nonzero[OF assms] by (simp add: sla_percentiles_def py_div_def Let_def)

lemma calculate_sla_bounds_valid:
  assumes "valid dem \<noteq> []" "dx \<noteq> 0"
  shows "calculate_sla_bounds stats dem m dx =
     Inr (ELA_from_AAR_m stats,
          Some (linear_quantile (sort (valid dem))
            (clip (1 - AAR stats + snow_free_above_sla_area (ELA_from_AAR_m stats) dem m dx / total_area dem dx) 0 1)),
          Some (linear_quantile (sort (valid dem))
            (clip (1 - AAR stats - snow_covered_below_sla_area (ELA_from_AAR_m stats) dem m dx / total_area dem dx) 0 1)))"
  by (simp add: calculate_sla_bounds_def sla_percentiles_valid[OF assms]
      nanpercentile_valid[OF assms(1) clip_unit])

text \<open>
  Claim C2.  When the total valid area is zero the estimator should stop with a
  "no valid area" result and not divide by the zero area.  The function has no such
  check: with an elevation model that has no valid cell it reaches the division of the
  misclassified area by the total area, and that division raises.
\<close>
theorem calculate_sla_bounds_zero_area_raises:
  "calculate_sla_bounds \<lparr>AAR = 1/2, ELA_from_AAR_m = 1000\<rparr> [None, None] [Some 0, Some 1] 30
     = Inl ZeroDivisionError"
  by (simp add: sla_defs)



lemma count_ones_map:
  "length (filter (\<lambda>v. v = (1::nat)) (map (\<lambda>c. if P c then 1 else 0) cs)) = length (filter P cs)"
  by (induction cs) auto

text \<open>
  A cell with a valid elevation and a missing snow cover value is part of the total
  area: the function counts the valid cells of the elevation model alone.
\<close>
theorem total_area_counts_unclassified_counterexample:
  "total_area [Some 100, Some 200] 30 = 1800
   \<and> spec_total_valid_area [Some 100, Some 200] [Some 1, None] 30 = 900"
  by (simp add: total_area_def npx_def spec_total_valid_area_def isnan_def)

text \<open>
  Claim C7, amended.  Each of the two misclassified areas is the number of cells where
  both fields are present and the cell meets the condition, times \<open>dx\<^sup>2\<close>, so a cell
  with either field missing is in neither; the total area is the number of cells whose
  elevation is present, whatever the snow cover value, times \<open>dx\<^sup>2\<close>.
\<close>
theorem misclassified_areas_exclude_missing:
  "snow_free_above_sla_area sla dem snow_cover_mask dx =
     real (length (filter (\<lambda>(d, m). \<not> isnan d \<and> \<not> isnan m \<and> sla < the d \<and> the m = 0)
                     (zip dem snow_cover_mask))) * dx\<^sup>2
   \<and> snow_covered_below_sla_area sla dem snow_cover_mask dx =
     real (length (filter (\<lambda>(d, m). \<not> isnan d \<and> \<not> isnan m \<and> the d < sla \<and> the m = 1)
                     (zip dem snow_cover_mask))) * dx\<^sup>2
   \<and> total_area dem dx = real (length (filter (\<lambda>d. \<not> isnan d) dem)) * dx\<^sup>2"
proof -
  have a: "(\<lambda>(d, m). if float_gt d sla \<and> float_eq m 0 then 1 else (0::nat))
         = (\<lambda>c. if (case c of (d, m) \<Rightarrow> \<not> isnan d \<and> \<not> isnan m \<and> sla < the d \<and> the m = 0) then 1 else 0)"
    by (auto simp: fun_eq_iff float_gt_def float_eq_def isnan_def split: option.splits)
  have b: "(\<lambda>(d, m). if float_lt d sla \<and> float_eq m 1 then 1 else (0::nat))
         = (\<lambda>c. if (case c of (d, m) \<Rightarrow> \<not> isnan d \<and> \<not> isnan m \<and> the d < sla \<and> the m = 1) then 1 else 0)"
    by (auto simp: fun_eq_iff float_lt_def float_eq_def isnan_def split: option.splits)
  show ?thesis
    unfolding snow_free_above_sla_area_def snow_covered_below_sla_area_def
      snow_free_above_sla_def snow_covered_below_sla_def total_area_def npx_def a b count_ones_map
    by simp
qed



text \<open>
  Claim C9.  When \<open>sla_percentile + delta_up\<close> exceeds 1, the upper percentile is
  clipped to exactly 1 and the upper bound is the greatest valid elevation.
\<close>
theorem upper_percentile_clamped_to_max:
  assumes "valid dem \<noteq> []" "dx \<noteq> 0"
    and "1 < 1 - AAR stats + snow_free_above_sla_area (ELA_from_AAR_m stats) dem m dx / total_area dem dx"
  shows "\<exists>lower_sla_percentile sla_lower_bound.
       sla_percentiles stats dem m dx = Inr (1, lower_sla_percentile)
     \<and> calculate_sla_bounds stats dem m dx
         = Inr (ELA_from_AAR_m stats, Some (Max (set (valid dem))), sla_lower_bound)"
proof -
  let ?du = "snow_free_above_sla_area (ELA_from_AAR_m stats) dem m dx / total_area dem dx"
  have c: "clip (1 - AAR stats + ?du) 0 1 = 1" using assms(3) by (simp add: clip_def)
  have ne: "sort (valid dem) \<noteq> []" using assms(1) by (metis length_sort length_0_conv)
  have mx: "linear_quantile (sort (valid dem)) 1 = Max (set (valid dem))"
    using linear_quantile_one[OF _ ne] by simp
  show ?thesis
    by (simp add: sla_percentiles_valid[OF assms(1,2)] calculate_sla_bounds_valid[OF assms(1,2)] c mx)
qed

text \<open>An instance: \<open>AAR = 0.1\<close> and one of five valid cells snow free above the snowline.\<close>
theorem upper_percentile_clamped_to_max_witness:
  "valid [Some 100, Some 500, Some 300, None, Some 400, Some 200] \<noteq> [] \<and> (2::real) \<noteq> 0
   \<and> 1 < 1 - (1/10) + snow_free_above_sla_area 460
             [Some 100, Some 500, Some 300, None, Some 400, Some 200]
             [Some 0, Some 0, Some 0, Some 0, Some 1, Some 0] 2
           / total_area [Some 100, Some 500, Some 300, None, Some 400, Some 200] 2
   \<and> calculate_sla_bounds \<lparr>AAR = 1/10, ELA_from_AAR_m = 460\<rparr>
        [Some 100, Some 500, Some 300, None, Some 400, Some 200]
        [Some 0, Some 0, Some 0, Some 0, Some 1, Some 0] 2 = Inr (460, Some 500, Some 380)"
proof -
  let ?dem = "[Some 100, Some 500, Some 300, None, Some 400, Some 200] :: ndarray"
  let ?m = "[Some 0, Some 0, Some 0, Some 0, Some 1, Some 0] :: ndarray"
  let ?st = "\<lparr>AAR = 1/10, ELA_from_AAR_m = 460\<rparr>"
  have h1: "valid ?dem \<noteq> []" by (simp add: valid_def isnan_def)
  have h2: "(2::real) \<noteq> 0" by simp
  have h3: "1 < 1 - AAR ?st + snow_free_above_sla_area (ELA_from_AAR_m ?st) ?dem ?m 2 / total_area ?dem 2"
    by (simp add: sla_defs)
  have mx: "Max (set (valid ?dem)) = 500" by (simp add: valid_def isnan_def)
  from upper_percentile_clamped_to_max[OF h1 h2 h3] obtain l where
    "calculate_sla_bounds ?st ?dem ?m 2 = Inr (460, Some 500, l)"
    unfolding mx by auto
  moreover have "calculate_sla_bounds ?st ?dem ?m 2 = Inr (460, Some 500, Some 380)"
    by (simp add: sla_defs)
  ultimately show ?thesis using h1 h2 h3 by simp
qed

text \<open>
  Claim C10.  Both comparisons with the snowline altitude are strict: a cell whose
  elevation equals the altitude adds nothing to either misclassified area, whatever its
  snow cover value.  The areas of a raster with such a cell are those of the raster
  without it.
\<close>
theorem boundary_cell_contributes_nothing:
  assumes "length d1 = length m1"
  shows "snow_free_above_sla_area sla (d1 @ Some sla # d2) (m1 @ m # m2) dx
           = snow_free_above_sla_area sla (d1 @ d2) (m1 @ m2) dx
       \<and> snow_covered_below_sla_area sla (d1 @ Some sla # d2) (m1 @ m # m2) dx
           = snow_covered_below_sla_area sla (d1 @ d2) (m1 @ m2) dx"
  using assms
  by (simp add: snow_free_above_sla_area_def snow_covered_below_sla_area_def
      snow_free_above_sla_def snow_covered_below_sla_def float_gt_def float_lt_def)

text \<open>An instance: a cell at the altitude 250 between one cell below and one above.\<close>
theorem boundary_cell_contributes_nothing_witness:
  "length [Some 100 :: real option] = length [Some 1 :: real option]
   \<and> snow_free_above_sla_area 250 ([Some 100] @ Some 250 # [Some 300]) ([Some 1] @ Some 0 # [Some 0]) 30 = 900
   \<and> snow_free_above_sla_area 250 ([Some 100] @ [Some 300]) ([Some 1] @ [Some 0]) 30 = 900
   \<and> snow_covered_below_sla_area 250 ([Some 100] @ Some 250 # [Some 300]) ([Some 1] @ Some 0 # [Some 0]) 30 = 900
   \<and> snow_covered_below_sla_area 250 ([Some 100] @ [Some 300]) ([Some 1] @ [Some 0]) 30 = 900"
proof -
  have h: "length [Some 100 :: real option] = length [Some 1 :: real option]" by simp
  have a: "snow_free_above_sla_area 250 ([Some 100] @ [Some 300]) ([Some 1] @ [Some 0]) 30 = 900"
    by (simp add: sla_defs)
  have b: "snow_covered_below_sla_area 250 ([Some 100] @ [Some 300]) ([Some 1] @ [Some 0]) 30 = 900"
    by (simp add: sla_defs)
  from boundary_cell_contributes_nothing[OF h, of 250 "[Some 300]" "Some 0" "[Some 0]" 30] a b h show ?thesis by simp
qed

section \<open>The instance evaluated\<close>

lemma recorded_split_seed_1: "recorded_split 2 1 4 = Inr [([0, 1], [2, 3]), ([2, 3], [0, 1])]"
  by code_simp

lemma recorded_split_seed_3: "recorded_split 2 3 4 = Inr [([0, 2], [1, 3]), ([1, 3], [0, 2])]"
  by code_simp

lemma four_rows_features: "getitem four_rows [''x''] = Inr [[10], [20], [30], [40]]"
  by (simp add: getitem_def four_rows_def)

lemma four_rows_labels: "getitem four_rows [''y''] = Inr [[1], [2], [3], [4]]"
  by (simp add: getitem_def four_rows_def)

lemmas dummy_defs = dummy_sklearn_def metric_mae_def metric_mse_def metric_mape_def
  metric_max_error_def metric_r2_def iloc_def ravel_def zero_fold_metrics_def Let_def

lemma kfold_split_four_rows: "kfold_split dummy_sklearn 2 [[10], [20], [30], [40]]
    = Inr [([0, 1], [2, 3]), ([2, 3], [0, 1])]"
proof -
  have len: "length [[10::real], [20], [30], [40]] = 4" by simp
  show ?thesis
    unfolding kfold_split_def len
    by (simp add: dummy_sklearn_def recorded_split_seed_1 del: One_nat_def)
qed

lemma fold_loop_dummy_zero:
  "fold_loop dummy_sklearn [[10], [20], [30], [40]] [[1], [2], [3], [4]]
     [([0, 1], [2, 3]), ([2, 3], [0, 1])] 0 (Dummy 0 0) (zero_fold_metrics 2)
   = Inr (Dummy 0 2,
          \<lparr>mean_abs_err_folds = [7/2, 3/2], mean_sq_err_folds = [25/2, 5/2],
           mean_abs_percentage_err_folds = [1, 1], max_err_folds = [4, 2],
           rsq_folds = Scalar (- 9)\<rparr>)"
  by (simp add: dummy_defs numeral_2_eq_2 power2_eq_square)

lemma evaluate_dummy_zero:
  "evaluate_model dummy_sklearn [[10], [20], [30], [40]] [[1], [2], [3], [4]] 2 (Dummy 0 0)
   = Inr (Dummy 0 2, 5/2, 15/2, - 9, 3, - 9)"
  by (simp add: evaluate_model_def kfold_split_four_rows fold_loop_dummy_zero
      del: fold_loop.simps One_nat_def)

lemma evaluate_dummy_two:
  "evaluate_model dummy_sklearn [[10], [20], [30], [40]] [[1], [2], [3], [4]] 2 (Dummy 2 0)
   = Inr (Dummy 2 2, 1, 3/2, - 1, 3/2, - 1)"
  unfolding evaluate_model_def kfold_split_four_rows
  by (simp add: dummy_defs numeral_2_eq_2 power2_eq_square)

lemma evaluate_dummy_three:
  "evaluate_model dummy_sklearn [[10], [20], [30], [40]] [[1], [2], [3], [4]] 2 (Dummy 3 0)
   = Inr (Dummy 3 2, 1, 3/2, - 9, 3/2, - 9)"
  unfolding evaluate_model_def kfold_split_four_rows
  by (simp add: dummy_defs numeral_2_eq_2 power2_eq_square)

lemma model_loop_three_dummies:
  "model_loop dummy_sklearn [[10], [20], [30], [40]] [[1], [2], [3], [4]] 2
     (zip three_names three_dummies) 0 three_dummies (zero_performances (length three_dummies))
   = Inr ([Dummy 0 2, Dummy 2 2, Dummy 3 2],
          \<lparr>mean_abs_err = [5/2, 1, 1], mean_sq_err = [15/2, 3/2, 3/2],
           mean_abs_percentage_err = [- 9, - 1, - 9],
           max_err = [3, 3/2, 3/2], rsq = [- 9, - 1, - 9]\<rparr>)"
  by (simp add: three_names_def three_dummies_def zero_performances_def evaluate_dummy_zero
      evaluate_dummy_two evaluate_dummy_three numeral_3_eq_3)

lemma fit_dummy: "fit dummy_sklearn = dummy_fit"
  by (simp add: dummy_sklearn_def)

lemma importance_dummy: "permutation_importance dummy_sklearn = dummy_importance"
  by (simp add: dummy_sklearn_def)

lemma three_lengths: "length three_names = 3" "length three_dummies = 3"
  by (simp_all add: three_names_def three_dummies_def)

lemma model_loop_three_dummies_3:
  "model_loop dummy_sklearn [[10], [20], [30], [40]] [[1], [2], [3], [4]] 2
     (zip three_names three_dummies) 0 three_dummies (zero_performances 3)
   = Inr ([Dummy 0 2, Dummy 2 2, Dummy 3 2],
          \<lparr>mean_abs_err = [5/2, 1, 1], mean_sq_err = [15/2, 3/2, 3/2],
           mean_abs_percentage_err = [- 9, - 1, - 9],
           max_err = [3, 3/2, 3/2], rsq = [- 9, - 1, - 9]\<rparr>)"
  using model_loop_three_dummies by (simp only: three_lengths)

lemma argmin_first_three: "argmin_first [5/2, 1, 1] = Inr 1"
  by (simp add: argmin_first_def)

lemma can_write_out:
  "can_write only_out ''out/best_model.joblib''" "can_write only_out ''out/model_performances.csv''"
  "\<not> can_write no_directory ''out/best_model.joblib''"
  by (simp_all add: can_write_def dirname_def only_out_def no_directory_def)

lemma joined_paths:
  "path_join ''out'' ''best_model.joblib'' = ''out/best_model.joblib''"
  "path_join ''out'' ''model_performances.csv'' = ''out/model_performances.csv''"
  by (simp_all add: path_join_def)

lemma determine_best_model_three_dummies:
  "determine_best_model dummy_sklearn only_out four_rows three_dummies three_names [''x''] [''y'']
      ''out'' ''best_model.joblib'' False ''model_performances.csv'' 2
   = (Inr (Dummy 2 4, [[10], [20], [30], [40]], [[1], [2], [3], [4]]),
      [Saved_model ''out/best_model.joblib'' (Dummy 2 4),
       Printed ''Most accurate model retrained and saved to file: out/best_model.joblib''])"
  by (simp add: determine_best_model_def four_rows_features four_rows_labels
      model_loop_three_dummies_3 argmin_first_three joined_paths can_write_out
      fit_dummy three_lengths Let_def)

lemma determine_best_model_three_dummies_saved:
  "determine_best_model dummy_sklearn only_out four_rows three_dummies three_names [''x''] [''y'']
      ''out'' ''best_model.joblib'' True ''model_performances.csv'' 2
   = (Inr (Dummy 2 4, [[10], [20], [30], [40]], [[1], [2], [3], [4]]),
      [Saved_performances ''out/model_performances.csv'' three_names
          \<lparr>mean_abs_err = [5/2, 1, 1], mean_sq_err = [15/2, 3/2, 3/2],
           mean_abs_percentage_err = [- 9, - 1, - 9],
           max_err = [3, 3/2, 3/2], rsq = [- 9, - 1, - 9]\<rparr>,
       Printed ''Evaluation metrics for all models saved to file: out/model_performances.csv'',
       Saved_model ''out/best_model.joblib'' (Dummy 2 4),
       Printed ''Most accurate model retrained and saved to file: out/best_model.joblib''])"
  by (simp add: determine_best_model_def four_rows_features four_rows_labels
      model_loop_three_dummies_3 argmin_first_three joined_paths can_write_out
      fit_dummy three_lengths Let_def)

lemma determine_best_model_missing_directory:
  "determine_best_model dummy_sklearn no_directory four_rows three_dummies three_names
      [''x''] [''y''] ''out'' ''best_model.joblib'' False ''model_performances.csv'' 2
   = (Inl OSError, [])"
  by (simp add: determine_best_model_def four_rows_features four_rows_labels
      model_loop_three_dummies_3 argmin_first_three joined_paths can_write_out
      fit_dummy three_lengths Let_def)

lemma assess_missing_directory:
  "assess_model_feature_importances dummy_sklearn box_plot only_out (Dummy 2 4)
      [[10], [20], [30], [40]] (Y2d [[1], [2], [3], [4]]) [''x''] None (Some ''results'')
      ''model_feature_importances.csv'' None ''model_feature_importances.png'' 3 42
   = (Inr [[0, 0, 0]],
      [Printed ''Variable out_path not valid path in directory, not saving output dataframe...''])"
  by (simp add: assess_model_feature_importances_def importance_dummy only_out_def box_plot_def
      numeral_3_eq_3)

section \<open>Properties of determine_best_model\<close>

lemma first_index_Some:
  "first_index a v = Some i \<Longrightarrow> i < length a \<and> a ! i = v \<and> (\<forall>j<i. a ! j \<noteq> v)"
proof (induction a arbitrary: i)
  case Nil
  then show ?case by simp
next
  case (Cons x xs)
  show ?case
  proof (cases "x = v")
    case True
    with Cons.prems show ?thesis by simp
  next
    case False
    with Cons.prems obtain k where k: "first_index xs v = Some k" "i = Suc k" by auto
    from Cons.IH[OF k(1)] have ih: "k < length xs" "xs ! k = v" "\<forall>j<k. xs ! j \<noteq> v" by auto
    have "\<forall>j<Suc k. (x # xs) ! j \<noteq> v"
    proof (intro allI impI)
      fix j assume "j < Suc k"
      then show "(x # xs) ! j \<noteq> v" using False ih(3) by (cases j) auto
    qed
    with ih k(2) show ?thesis by simp
  qed
qed

lemma first_index_member: "v \<in> set a \<Longrightarrow> \<exists>i. first_index a v = Some i"
  by (induction a) auto

lemma argmin_first_spec:
  assumes "a \<noteq> []"
  shows "\<exists>i. argmin_first a = Inr i \<and> i < length a
           \<and> (\<forall>j<length a. a ! i \<le> a ! j) \<and> (\<forall>j<i. a ! i < a ! j)"
proof -
  have mem: "Min (set a) \<in> set a" using assms by (intro Min_in) auto
  then obtain i where i: "first_index a (Min (set a)) = Some i"
    using first_index_member by blast
  from first_index_Some[OF i]
  have p: "i < length a" "a ! i = Min (set a)" "\<forall>j<i. a ! j \<noteq> Min (set a)" by auto
  have le: "a ! i \<le> a ! j" if "j < length a" for j
    unfolding p(2) using that by (intro Min_le) auto
  have lt: "a ! i < a ! j" if "j < i" for j
  proof -
    have "j < length a" using that p(1) by simp
    from le[OF this] p(3) that p(2) show ?thesis by (metis order_le_less)
  qed
  have "argmin_first a = Inr i" using assms i by (simp add: argmin_first_def)
  with p(1) le lt show ?thesis by blast
qed

lemma model_loop_spec:
  assumes "model_loop api X y k cands i ms perf = Inr (ms', perf')"
    and "i + length cands \<le> length ms"
    and "length (mean_abs_err perf) = length ms"
  shows "length ms' = length ms \<and> length (mean_abs_err perf') = length ms
     \<and> (\<forall>n<length cands. \<exists>mse mape mx r.
            evaluate_model api X y k (snd (cands ! n))
              = Inr (ms' ! (i + n), mean_abs_err perf' ! (i + n), mse, mape, mx, r))
     \<and> (\<forall>j<i. ms' ! j = ms ! j \<and> mean_abs_err perf' ! j = mean_abs_err perf ! j)"
  using assms
proof (induction cands arbitrary: i ms perf)
  case Nil
  then show ?case by simp
next
  case (Cons c rest)
  obtain name model where c: "c = (name, model)" by (cases c)
  from Cons.prems(1) c obtain m' mae mse mape mx r where
    step: "evaluate_model api X y k model = Inr (m', mae, mse, mape, mx, r)"
    by (auto split: sum.splits)
  let ?ms = "ms[i := m']"
  let ?perf = "perf\<lparr>mean_abs_err := (mean_abs_err perf)[i := mae],
                  mean_sq_err := (mean_sq_err perf)[i := mse],
                  mean_abs_percentage_err := (mean_abs_percentage_err perf)[i := mape],
                  max_err := (max_err perf)[i := mx],
                  rsq := (rsq perf)[i := r]\<rparr>"
  have rec: "model_loop api X y k rest (i + 1) ?ms ?perf = Inr (ms', perf')"
    using Cons.prems(1) c step by simp
  have b: "(i + 1) + length rest \<le> length ?ms" using Cons.prems(2) by simp
  have l: "length (mean_abs_err ?perf) = length ?ms" using Cons.prems(3) by simp
  from Cons.IH[OF rec b l]
  have ih1: "length ms' = length ms" "length (mean_abs_err perf') = length ms"
    and ih2: "\<forall>n<length rest. \<exists>mse mape mx r.
            evaluate_model api X y k (snd (rest ! n))
              = Inr (ms' ! (i + 1 + n), mean_abs_err perf' ! (i + 1 + n), mse, mape, mx, r)"
    and ih3: "\<forall>j<i + 1. ms' ! j = ?ms ! j \<and> mean_abs_err perf' ! j = mean_abs_err ?perf ! j"
    by simp_all
  have ilt: "i < length ms" using Cons.prems(2) by simp
  have at_i: "ms' ! i = m'" "mean_abs_err perf' ! i = mae"
    using ih3 ilt Cons.prems(3) by simp_all
  have third: "\<exists>mse mape mx r. evaluate_model api X y k (snd ((c # rest) ! n))
              = Inr (ms' ! (i + n), mean_abs_err perf' ! (i + n), mse, mape, mx, r)"
    if n: "n < length (c # rest)" for n
  proof (cases n)
    case 0
    then show ?thesis using step c at_i by simp
  next
    case (Suc n')
    then have "n' < length rest" using n by simp
    with ih2 Suc show ?thesis by simp
  qed
  have fourth: "ms' ! j = ms ! j \<and> mean_abs_err perf' ! j = mean_abs_err perf ! j" if "j < i" for j
    using ih3 that by simp
  from ih1 third fourth show ?case by blast
qed

lemma zero_performances_length: "length (mean_abs_err (zero_performances n)) = n"
  by (simp add: zero_performances_def)

lemma cross_validation_spec:
  assumes "model_loop api X y k (zip model_names models) 0 models (zero_performances (length models))
             = Inr (models', perf)"
    and "length model_names = length models"
  shows "length models' = length models" "length (mean_abs_err perf) = length models"
    "\<And>i. i < length models \<Longrightarrow> \<exists>mse mape mx r.
        evaluate_model api X y k (models ! i) = Inr (models' ! i, mean_abs_err perf ! i, mse, mape, mx, r)"
proof -
  have b: "0 + length (zip model_names models) \<le> length models" using assms(2) by simp
  note s = model_loop_spec[OF assms(1) b zero_performances_length]
  show "length models' = length models" "length (mean_abs_err perf) = length models"
    using s by simp_all
  fix i assume i: "i < length models"
  then have "i < length (zip model_names models)" using assms(2) by simp
  with s have "\<exists>mse mape mx r. evaluate_model api X y k (snd (zip model_names models ! i))
       = Inr (models' ! (0 + i), mean_abs_err perf ! (0 + i), mse, mape, mx, r)" by blast
  then show "\<exists>mse mape mx r.
        evaluate_model api X y k (models ! i) = Inr (models' ! i, mean_abs_err perf ! i, mse, mape, mx, r)"
    using i assms(2) by simp
qed

lemma determine_best_model_returns:
  assumes "getitem data feature_columns = Inr X" and "getitem data labels = Inr y"
    and "model_loop api X y num_folds (zip model_names models) 0 models
           (zero_performances (length models)) = Inr (models', perf)"
    and "models \<noteq> []" and "length model_names = length models"
    and "save_performances \<longrightarrow> can_write fs (path_join out_path performances_fn)"
    and "can_write fs (path_join out_path best_model_fn)"
  shows "\<exists>ibest. ibest < length models
     \<and> (\<forall>j<length models. mean_abs_err perf ! ibest \<le> mean_abs_err perf ! j)
     \<and> (\<forall>j<ibest. mean_abs_err perf ! ibest < mean_abs_err perf ! j)
     \<and> determine_best_model api fs data models model_names feature_columns labels
              out_path best_model_fn save_performances performances_fn num_folds
         = (Inr (fit api (models' ! ibest) X (Y2d y), X, y),
            (if save_performances
             then [Saved_performances (path_join out_path performances_fn) model_names perf,
                   Printed (''Evaluation metrics for all models saved to file: ''
                              @ path_join out_path performances_fn)]
             else [])
            @ [Saved_model (path_join out_path best_model_fn) (fit api (models' ! ibest) X (Y2d y)),
               Printed (''Most accurate model retrained and saved to file: ''
                          @ path_join out_path best_model_fn)])"
proof -
  note cv = cross_validation_spec[OF assms(3,5)]
  have ne: "mean_abs_err perf \<noteq> []" using cv(2) assms(4) by auto
  from argmin_first_spec[OF ne] obtain ibest where
    ib: "argmin_first (mean_abs_err perf) = Inr ibest" "ibest < length (mean_abs_err perf)"
      "\<forall>j<length (mean_abs_err perf). mean_abs_err perf ! ibest \<le> mean_abs_err perf ! j"
      "\<forall>j<ibest. mean_abs_err perf ! ibest < mean_abs_err perf ! j"
    by blast
  have lt: "ibest < length model_names" using ib(2) cv(2) assms(5) by simp
  have "determine_best_model api fs data models model_names feature_columns labels
              out_path best_model_fn save_performances performances_fn num_folds
         = (Inr (fit api (models' ! ibest) X (Y2d y), X, y),
            (if save_performances
             then [Saved_performances (path_join out_path performances_fn) model_names perf,
                   Printed (''Evaluation metrics for all models saved to file: ''
                              @ path_join out_path performances_fn)]
             else [])
            @ [Saved_model (path_join out_path best_model_fn) (fit api (models' ! ibest) X (Y2d y)),
               Printed (''Most accurate model retrained and saved to file: ''
                          @ path_join out_path best_model_fn)])"
    using assms(1,2,3,5,6,7) ib(1) lt by (simp add: determine_best_model_def Let_def)
  moreover have "ibest < length models" using ib(2) cv(2) by simp
  ultimately show ?thesis using ib(3,4) cv(2) by auto
qed

text \<open>
  Claim C4.  When the cross-validation of a non-empty list of candidates completes and
  the output files can be written, the function returns the estimator at the first
  position holding the least aggregate mean absolute error, as the loop left it, fitted
  once more on all rows of the features and the label table.
\<close>
theorem best_model_first_minimum_retrained_on_all_rows:
  assumes "getitem data feature_columns = Inr X" and "getitem data labels = Inr y"
    and "model_loop api X y num_folds (zip model_names models) 0 models
           (zero_performances (length models)) = Inr (models', perf)"
    and "models \<noteq> []" and "length model_names = length models"
    and "save_performances \<longrightarrow> can_write fs (path_join out_path performances_fn)"
    and "can_write fs (path_join out_path best_model_fn)"
  shows "\<exists>ibest. ibest < length models
     \<and> (\<forall>j<length models. mean_abs_err perf ! ibest \<le> mean_abs_err perf ! j)
     \<and> (\<forall>j<ibest. mean_abs_err perf ! ibest < mean_abs_err perf ! j)
     \<and> (\<forall>i<length models. \<exists>mse mape mx r. evaluate_model api X y num_folds (models ! i)
            = Inr (models' ! i, mean_abs_err perf ! i, mse, mape, mx, r))
     \<and> fst (determine_best_model api fs data models model_names feature_columns labels
              out_path best_model_fn save_performances performances_fn num_folds)
         = Inr (fit api (models' ! ibest) X (Y2d y), X, y)"
proof -
  note cv = cross_validation_spec[OF assms(3,5)]
  from determine_best_model_returns[OF assms] obtain ibest where
    ib: "ibest < length models"
      "\<forall>j<length models. mean_abs_err perf ! ibest \<le> mean_abs_err perf ! j"
      "\<forall>j<ibest. mean_abs_err perf ! ibest < mean_abs_err perf ! j"
    and r: "fst (determine_best_model api fs data models model_names feature_columns labels
              out_path best_model_fn save_performances performances_fn num_folds)
         = Inr (fit api (models' ! ibest) X (Y2d y), X, y)"
    by fastforce
  from ib r cv(3) show ?thesis by blast
qed

text \<open>
  Three constant regressors; the second and the third tie at the least error, and the
  second is returned, fitted on the four rows.
\<close>
theorem best_model_first_minimum_retrained_on_all_rows_witness:
  "getitem four_rows [''x''] = Inr [[10], [20], [30], [40]]
   \<and> getitem four_rows [''y''] = Inr [[1], [2], [3], [4]]
   \<and> model_loop dummy_sklearn [[10], [20], [30], [40]] [[1], [2], [3], [4]] 2
        (zip three_names three_dummies) 0 three_dummies (zero_performances (length three_dummies))
       = Inr ([Dummy 0 2, Dummy 2 2, Dummy 3 2],
          \<lparr>mean_abs_err = [5/2, 1, 1], mean_sq_err = [15/2, 3/2, 3/2],
           mean_abs_percentage_err = [- 9, - 1, - 9],
           max_err = [3, 3/2, 3/2], rsq = [- 9, - 1, - 9]\<rparr>)
   \<and> three_dummies \<noteq> [] \<and> length three_names = length three_dummies
   \<and> can_write only_out (path_join ''out'' ''model_performances.csv'')
   \<and> can_write only_out (path_join ''out'' ''best_model.joblib'')
   \<and> fst (determine_best_model dummy_sklearn only_out four_rows three_dummies three_names
             [''x''] [''y''] ''out'' ''best_model.joblib'' True ''model_performances.csv'' 2)
       = Inr (fit dummy_sklearn ([Dummy 0 2, Dummy 2 2, Dummy 3 2] ! 1)
                [[10], [20], [30], [40]] (Y2d [[1], [2], [3], [4]]),
              [[10], [20], [30], [40]], [[1], [2], [3], [4]])"
proof -
  let ?perf = "\<lparr>mean_abs_err = [5/2, 1, 1], mean_sq_err = [15/2, 3/2, 3/2],
           mean_abs_percentage_err = [- 9, - 1, - 9],
           max_err = [3, 3/2, 3/2], rsq = [- 9, - 1, - 9] :: real list\<rparr>"
  have h4: "three_dummies \<noteq> []" by (simp add: three_dummies_def)
  have h5: "length three_names = length three_dummies" by (simp add: three_lengths)
  have w1: "can_write only_out (path_join ''out'' ''model_performances.csv'')"
    by (simp add: joined_paths can_write_out)
  have h6: "True \<longrightarrow> can_write only_out (path_join ''out'' ''model_performances.csv'')"
    using w1 by simp
  have h7: "can_write only_out (path_join ''out'' ''best_model.joblib'')"
    by (simp add: joined_paths can_write_out)
  from best_model_first_minimum_retrained_on_all_rows[OF four_rows_features four_rows_labels
      model_loop_three_dummies h4 h5 h6 h7]
  obtain ibest where ib: "ibest < length three_dummies"
      "\<forall>j<length three_dummies. mean_abs_err ?perf ! ibest \<le> mean_abs_err ?perf ! j"
      "\<forall>j<ibest. mean_abs_err ?perf ! ibest < mean_abs_err ?perf ! j"
    and r: "fst (determine_best_model dummy_sklearn only_out four_rows three_dummies three_names
             [''x''] [''y''] ''out'' ''best_model.joblib'' True ''model_performances.csv'' 2)
       = Inr (fit dummy_sklearn ([Dummy 0 2, Dummy 2 2, Dummy 3 2] ! ibest)
                [[10], [20], [30], [40]] (Y2d [[1], [2], [3], [4]]),
              [[10], [20], [30], [40]], [[1], [2], [3], [4]])"
    by blast
  have "ibest = 1"
  proof -
    have lt3: "ibest < 3" using ib(1) by (simp add: three_lengths)
    have "mean_abs_err ?perf ! ibest \<le> mean_abs_err ?perf ! 1"
      using ib(2)[rule_format, of 1] by (simp add: three_lengths)
    then have n0: "ibest \<noteq> 0" by (intro notI) simp
    have n2: "ibest \<noteq> 2"
    proof
      assume "ibest = 2"
      with ib(3)[rule_format, of 1] have "mean_abs_err ?perf ! 2 < mean_abs_err ?perf ! 1" by simp
      then show False by simp
    qed
    from lt3 n0 n2 show ?thesis by arith
  qed
  with r four_rows_features four_rows_labels model_loop_three_dummies h4 h5 w1 h7
  show ?thesis by simp
qed

lemma fold_loop_same_estimator:
  assumes "\<forall>X' y'. fit api m2 X' y' = fit api m X' y'"
    and "fold_loop api X y splits j m fm = Inr (m', fm')"
  shows "\<exists>m2'. fold_loop api X y splits j m2 fm = Inr (m2', fm')"
proof (cases splits)
  case Nil
  with assms(2) show ?thesis by simp
next
  case (Cons sp rest)
  obtain train_ix test_ix where sp: "sp = (train_ix, test_ix)" by (cases sp)
  have "fold_loop api X y splits j m2 fm = fold_loop api X y splits j m fm"
    unfolding Cons sp using assms(1) by (simp add: Let_def split: sum.splits)
  with assms(2) show ?thesis by simp
qed

text \<open>
  The partition of a candidate is the library's for the seed 1, which is written in the
  function; the caller has no argument for it.  For the table of four rows the library
  gives another partition for the seed 3, and the function does not use it.
\<close>
theorem partition_seed_is_fixed_counterexample:
  "kfold_split dummy_sklearn 2 [[10], [20], [30], [40]] = Inr [([0, 1], [2, 3]), ([2, 3], [0, 1])]
   \<and> KFold_split dummy_sklearn 2 3 (length [[10::real], [20], [30], [40]])
       = Inr [([0, 2], [1, 3]), ([1, 3], [0, 2])]"
proof -
  have len: "length [[10::real], [20], [30], [40]] = 4" by simp
  have "KFold_split dummy_sklearn 2 3 4 = Inr [([0, 2], [1, 3]), ([1, 3], [0, 2])]"
    by (simp add: dummy_sklearn_def recorded_split_seed_3 del: One_nat_def)
  then have "KFold_split dummy_sklearn 2 3 (length [[10::real], [20], [30], [40]])
       = Inr [([0, 2], [1, 3]), ([1, 3], [0, 2])]"
    by (simp only: len)
  with kfold_split_four_rows show ?thesis by simp
qed

text \<open>
  Claim C5, amended.  The partition is the one the library gives for the number of
  folds, the number of rows and the fixed seed 1, not a seed of the caller; every
  candidate of one call is evaluated on this same partition.  A second run on the same
  data with the same number of folds has the same fold assignments, and for
  deterministic estimators the same per-fold metrics: \<open>again\<close> are the candidates of
  the second run, the same estimators in whatever state earlier fits left them, where
  the outcome of \<open>fit\<close> does not depend on that state.
\<close>
theorem same_partition_for_every_candidate:
  assumes "model_loop api X y num_folds (zip model_names models) 0 models
           (zero_performances (length models)) = Inr (models', perf)"
    and "length model_names = length models" and "models \<noteq> []"
    and "\<forall>i<length models. \<forall>X' y'. fit api (again ! i) X' y' = fit api (models ! i) X' y'"
  shows "\<exists>splits. kfold_split api num_folds X = Inr splits
     \<and> KFold_split api num_folds 1 (length X) = Inr splits
     \<and> (\<forall>i<length models. \<exists>fm m2.
          fold_loop api X y splits 0 (models ! i) (zero_fold_metrics num_folds)
            = Inr (models' ! i, fm)
        \<and> fold_loop api X y splits 0 (again ! i) (zero_fold_metrics num_folds)
            = Inr (m2, fm))"
proof -
  note cv = cross_validation_spec[OF assms(1,2)]
  have each: "\<exists>splits fm. kfold_split api num_folds X = Inr splits
      \<and> KFold_split api num_folds 1 (length X) = Inr splits
      \<and> fold_loop api X y splits 0 (models ! i) (zero_fold_metrics num_folds) = Inr (models' ! i, fm)"
    if "i < length models" for i
    using cv(3)[OF that]
    by (auto simp: evaluate_model_def kfold_split_def split: sum.splits if_splits)
  have "0 < length models" using assms(3) by simp
  from each[OF this] obtain splits where
    s: "kfold_split api num_folds X = Inr splits" "KFold_split api num_folds 1 (length X) = Inr splits"
    by blast
  have "\<exists>fm m2. fold_loop api X y splits 0 (models ! i) (zero_fold_metrics num_folds)
            = Inr (models' ! i, fm)
        \<and> fold_loop api X y splits 0 (again ! i) (zero_fold_metrics num_folds) = Inr (m2, fm)"
    if i: "i < length models" for i
  proof -
    from each[OF i] s obtain fm where
      f: "fold_loop api X y splits 0 (models ! i) (zero_fold_metrics num_folds) = Inr (models' ! i, fm)"
      by auto
    have "\<forall>X' y'. fit api (again ! i) X' y' = fit api (models ! i) X' y'"
      using assms(4) i by blast
    from fold_loop_same_estimator[OF this f] f show ?thesis by blast
  qed
  with s show ?thesis by blast
qed

text \<open>
  The three constant regressors on the table of four rows, in two folds; the second
  run starts from the regressors as the first run left them.
\<close>
theorem same_partition_for_every_candidate_witness:
  "model_loop dummy_sklearn [[10], [20], [30], [40]] [[1], [2], [3], [4]] 2
        (zip three_names three_dummies) 0 three_dummies (zero_performances (length three_dummies))
       = Inr ([Dummy 0 2, Dummy 2 2, Dummy 3 2],
          \<lparr>mean_abs_err = [5/2, 1, 1], mean_sq_err = [15/2, 3/2, 3/2],
           mean_abs_percentage_err = [- 9, - 1, - 9],
           max_err = [3, 3/2, 3/2], rsq = [- 9, - 1, - 9]\<rparr>)
   \<and> length three_names = length three_dummies \<and> three_dummies \<noteq> []
   \<and> fit dummy_sklearn (Dummy 0 2) = fit dummy_sklearn (three_dummies ! 0)
   \<and> fit dummy_sklearn (Dummy 2 2) = fit dummy_sklearn (three_dummies ! 1)
   \<and> fit dummy_sklearn (Dummy 3 2) = fit dummy_sklearn (three_dummies ! 2)
   \<and> KFold_split dummy_sklearn 2 1 (length [[10::real], [20], [30], [40]])
       = Inr [([0, 1], [2, 3]), ([2, 3], [0, 1])]
   \<and> fold_loop dummy_sklearn [[10], [20], [30], [40]] [[1], [2], [3], [4]]
          [([0, 1], [2, 3]), ([2, 3], [0, 1])] 0 (three_dummies ! 2) (zero_fold_metrics 2)
       = Inr (Dummy 3 2,
              \<lparr>mean_abs_err_folds = [1/2, 3/2], mean_sq_err_folds = [1/2, 5/2],
               mean_abs_percentage_err_folds = [1/8, 5/4], max_err_folds = [1, 2],
               rsq_folds = Scalar (- 9)\<rparr>)
   \<and> (\<exists>m2. fold_loop dummy_sklearn [[10], [20], [30], [40]] [[1], [2], [3], [4]]
              [([0, 1], [2, 3]), ([2, 3], [0, 1])] 0 (Dummy 3 2) (zero_fold_metrics 2)
            = Inr (m2,
              \<lparr>mean_abs_err_folds = [1/2, 3/2], mean_sq_err_folds = [1/2, 5/2],
               mean_abs_percentage_err_folds = [1/8, 5/4], max_err_folds = [1, 2],
               rsq_folds = Scalar (- 9)\<rparr>))"
proof -
  let ?X = "[[10], [20], [30], [40]] :: real list list"
  let ?y = "[[1], [2], [3], [4]] :: real list list"
  let ?again = "[Dummy 0 2, Dummy 2 2, Dummy 3 2]"
  let ?fm = "\<lparr>mean_abs_err_folds = [1/2, 3/2], mean_sq_err_folds = [1/2, 5/2],
               mean_abs_percentage_err_folds = [1/8, 5/4], max_err_folds = [1, 2],
               rsq_folds = Scalar (- 9)\<rparr>"
  have h2: "length three_names = length three_dummies" by (simp add: three_lengths)
  have h3: "three_dummies \<noteq> []" by (simp add: three_dummies_def)
  have e0: "fit dummy_sklearn (Dummy 0 2) = fit dummy_sklearn (three_dummies ! 0)"
    by (simp add: fit_dummy three_dummies_def fun_eq_iff)
  have e1: "fit dummy_sklearn (Dummy 2 2) = fit dummy_sklearn (three_dummies ! 1)"
    by (simp add: fit_dummy three_dummies_def fun_eq_iff)
  have e2: "fit dummy_sklearn (Dummy 3 2) = fit dummy_sklearn (three_dummies ! 2)"
    by (simp add: fit_dummy three_dummies_def fun_eq_iff)
  have h4: "\<forall>i<length three_dummies. \<forall>X' y'.
      fit dummy_sklearn (?again ! i) X' y' = fit dummy_sklearn (three_dummies ! i) X' y'"
  proof (intro allI impI)
    fix i X' y' assume "i < length three_dummies"
    then have "i = 0 \<or> i = 1 \<or> i = 2" by (simp add: three_lengths) arith
    then show "fit dummy_sklearn (?again ! i) X' y' = fit dummy_sklearn (three_dummies ! i) X' y'"
      using e0 e1 e2 by auto
  qed
  have k: "KFold_split dummy_sklearn 2 1 (length ?X) = Inr [([0, 1], [2, 3]), ([2, 3], [0, 1])]"
    using kfold_split_four_rows by (simp add: kfold_split_def)
  have f: "fold_loop dummy_sklearn ?X ?y [([0, 1], [2, 3]), ([2, 3], [0, 1])] 0
             (three_dummies ! 2) (zero_fold_metrics 2) = Inr (Dummy 3 2, ?fm)"
    by (simp add: three_dummies_def dummy_defs numeral_2_eq_2 power2_eq_square)
  from same_partition_for_every_candidate[OF model_loop_three_dummies h2 h3 h4] obtain splits where
    s: "KFold_split dummy_sklearn 2 1 (length ?X) = Inr splits"
    and a: "\<forall>i<length three_dummies. \<exists>fm m2.
          fold_loop dummy_sklearn ?X ?y splits 0 (three_dummies ! i) (zero_fold_metrics 2)
            = Inr ([Dummy 0 2, Dummy 2 2, Dummy 3 2] ! i, fm)
        \<and> fold_loop dummy_sklearn ?X ?y splits 0 (?again ! i) (zero_fold_metrics 2) = Inr (m2, fm)"
    by blast
  from s k have e: "splits = [([0, 1], [2, 3]), ([2, 3], [0, 1])]" by simp
  have "2 < length three_dummies" by (simp add: three_lengths)
  with a obtain fm m2 where
    b: "fold_loop dummy_sklearn ?X ?y splits 0 (three_dummies ! 2) (zero_fold_metrics 2)
            = Inr ([Dummy 0 2, Dummy 2 2, Dummy 3 2] ! 2, fm)"
       "fold_loop dummy_sklearn ?X ?y splits 0 (?again ! 2) (zero_fold_metrics 2) = Inr (m2, fm)"
    by blast
  from b(1) f e have "fm = ?fm" by simp
  with b(2) e have "\<exists>m2. fold_loop dummy_sklearn ?X ?y [([0, 1], [2, 3]), ([2, 3], [0, 1])] 0
      (Dummy 3 2) (zero_fold_metrics 2) = Inr (m2, ?fm)"
    by auto
  with model_loop_three_dummies h2 h3 e0 e1 e2 k f show ?thesis by blast
qed

lemma aggregate_mape_is_aggregate_rsq:
  "evaluate_model api X y num_folds model = Inr (model', mae_v, mse_v, mape_v, mx_v, r2_v)
     \<Longrightarrow> mape_v = r2_v"
  by (auto simp: evaluate_model_def split: sum.splits)

text \<open>
  Claim C1.  Each aggregate should be the mean over the folds of the per-fold values of
  the same metric.  For a regressor that predicts 0 on the labels 1, 2, 3, 4 in two
  folds, the per-fold mean absolute percentage errors are 1 and 1 and the per-fold
  R squared values are \<open>- 49\<close> and \<open>- 9\<close>; the function keeps only the last
  R squared, and reports it both as the aggregate percentage error and as the aggregate
  R squared.
\<close>
theorem aggregate_mape_is_last_fold_rsq:
  "fold_loop dummy_sklearn [[10], [20], [30], [40]] [[1], [2], [3], [4]]
       [([0, 1], [2, 3]), ([2, 3], [0, 1])] 0 (Dummy 0 0) (zero_fold_metrics 2)
     = Inr (Dummy 0 2,
            \<lparr>mean_abs_err_folds = [7/2, 3/2], mean_sq_err_folds = [25/2, 5/2],
             mean_abs_percentage_err_folds = [1, 1], max_err_folds = [4, 2],
             rsq_folds = Scalar (- 9)\<rparr>)
   \<and> r2_score dummy_sklearn [3, 4] [0, 0] = - 49
   \<and> r2_score dummy_sklearn [1, 2] [0, 0] = - 9
   \<and> evaluate_model dummy_sklearn [[10], [20], [30], [40]] [[1], [2], [3], [4]] 2 (Dummy 0 0)
     = Inr (Dummy 0 2, 5/2, 15/2, - 9, 3, - 9)"
proof -
  have a: "r2_score dummy_sklearn [3, 4] [0, 0] = - 49"
    by (simp add: dummy_sklearn_def metric_r2_def power2_eq_square)
  have b: "r2_score dummy_sklearn [1, 2] [0, 0] = - 9"
    by (simp add: dummy_sklearn_def metric_r2_def power2_eq_square)
  from fold_loop_dummy_zero a b evaluate_dummy_zero show ?thesis by blast
qed

text \<open>
  With \<open>save_performances\<close> false the retrained model is written all the same: no
  argument of the function gates it.
\<close>
theorem model_saved_without_flag_counterexample:
  "determine_best_model dummy_sklearn only_out four_rows three_dummies three_names [''x''] [''y'']
      ''out'' ''best_model.joblib'' False ''model_performances.csv'' 2
   = (Inr (Dummy 2 4, [[10], [20], [30], [40]], [[1], [2], [3], [4]]),
      [Saved_model ''out/best_model.joblib'' (Dummy 2 4),
       Printed ''Most accurate model retrained and saved to file: out/best_model.joblib''])"
  using determine_best_model_three_dummies by simp

text \<open>
  Claim C6, amended.  The table of performances is written only when
  \<open>save_performances\<close> is true: with the flag false it is never written, and with the
  flag true a run whose cross-validation completes and whose file can be written
  writes the computed table.  The retrained model has no flag: whenever the
  cross-validation completes and the files can be written, the call returns the model
  and has written it, whatever \<open>save_performances\<close> is.  In
  \<open>assess_model_feature_importances\<close>, an output path that does not exist does not
  stop the computation: nothing is written, this is reported, and the importances are
  returned.
\<close>
theorem persistence_gating:
  "(\<forall>p ns t. Saved_performances p ns t \<notin> set (snd (determine_best_model api fs data models
        model_names feature_columns labels out_path best_model_fn False performances_fn num_folds)))
   \<and> (getitem data feature_columns = Inr X \<and> getitem data labels = Inr y
        \<and> model_loop api X y num_folds (zip model_names models) 0 models
              (zero_performances (length models)) = Inr (models', perf)
        \<and> length model_names = length models
        \<and> can_write fs (path_join out_path performances_fn)
        \<longrightarrow> Saved_performances (path_join out_path performances_fn) model_names perf
               \<in> set (snd (determine_best_model api fs data models model_names feature_columns
                     labels out_path best_model_fn True performances_fn num_folds)))
   \<and> (getitem data feature_columns = Inr X \<and> getitem data labels = Inr y
        \<and> model_loop api X y num_folds (zip model_names models) 0 models
              (zero_performances (length models)) = Inr (models', perf)
        \<and> models \<noteq> [] \<and> length model_names = length models
        \<and> (save_performances \<longrightarrow> can_write fs (path_join out_path performances_fn))
        \<and> can_write fs (path_join out_path best_model_fn)
        \<longrightarrow> (\<exists>m. fst (determine_best_model api fs data models model_names feature_columns
                     labels out_path best_model_fn save_performances performances_fn num_folds)
                   = Inr (m, X, y)
                \<and> Saved_model (path_join out_path best_model_fn) m
                   \<in> set (snd (determine_best_model api fs data models model_names
                         feature_columns labels out_path best_model_fn save_performances
                         performances_fn num_folds))))
   \<and> (\<not> os_path_exists fs out
        \<and> importances_frame columns' (permutation_importance api model X' y' n_repeats random_state)
            = Inr df
        \<and> plot df (case display of None \<Rightarrow> columns'
                                 | Some d \<Rightarrow> if d = [] then columns' else d) = None
        \<longrightarrow> assess_model_feature_importances api plot fs model X' y' columns' display (Some out)
              importances_fn figure_out_path figure_fn n_repeats random_state
            = (Inr (permutation_importance api model X' y' n_repeats random_state),
               [Printed ''Variable out_path not valid path in directory, not saving output dataframe...'']))"
proof (intro conjI impI)
  show "\<forall>p ns t. Saved_performances p ns t \<notin> set (snd (determine_best_model api fs data models
        model_names feature_columns labels out_path best_model_fn False performances_fn num_folds))"
    by (auto simp: determine_best_model_def Let_def split: sum.splits)
next
  assume "getitem data feature_columns = Inr X \<and> getitem data labels = Inr y
        \<and> model_loop api X y num_folds (zip model_names models) 0 models
              (zero_performances (length models)) = Inr (models', perf)
        \<and> length model_names = length models
        \<and> can_write fs (path_join out_path performances_fn)"
  then show "Saved_performances (path_join out_path performances_fn) model_names perf
               \<in> set (snd (determine_best_model api fs data models model_names feature_columns
                     labels out_path best_model_fn True performances_fn num_folds))"
    by (auto simp: determine_best_model_def Let_def split: sum.splits)
next
  assume h: "getitem data feature_columns = Inr X \<and> getitem data labels = Inr y
        \<and> model_loop api X y num_folds (zip model_names models) 0 models
              (zero_performances (length models)) = Inr (models', perf)
        \<and> models \<noteq> [] \<and> length model_names = length models
        \<and> (save_performances \<longrightarrow> can_write fs (path_join out_path performances_fn))
        \<and> can_write fs (path_join out_path best_model_fn)"
  then have "\<exists>ibest. determine_best_model api fs data models model_names feature_columns labels
              out_path best_model_fn save_performances performances_fn num_folds
         = (Inr (fit api (models' ! ibest) X (Y2d y), X, y),
            (if save_performances
             then [Saved_performances (path_join out_path performances_fn) model_names perf,
                   Printed (''Evaluation metrics for all models saved to file: ''
                              @ path_join out_path performances_fn)]
             else [])
            @ [Saved_model (path_join out_path best_model_fn) (fit api (models' ! ibest) X (Y2d y)),
               Printed (''Most accurate model retrained and saved to file: ''
                          @ path_join out_path best_model_fn)])"
    using determine_best_model_returns[of data feature_columns X labels y api num_folds model_names
        models models' perf save_performances fs out_path performances_fn best_model_fn]
    by blast
  then obtain ibest where r: "determine_best_model api fs data models model_names feature_columns
              labels out_path best_model_fn save_performances performances_fn num_folds
         = (Inr (fit api (models' ! ibest) X (Y2d y), X, y),
            (if save_performances
             then [Saved_performances (path_join out_path performances_fn) model_names perf,
                   Printed (''Evaluation metrics for all models saved to file: ''
                              @ path_join out_path performances_fn)]
             else [])
            @ [Saved_model (path_join out_path best_model_fn) (fit api (models' ! ibest) X (Y2d y)),
               Printed (''Most accurate model retrained and saved to file: ''
                          @ path_join out_path best_model_fn)])"
    by blast
  show "\<exists>m. fst (determine_best_model api fs data models model_names feature_columns
                     labels out_path best_model_fn save_performances performances_fn num_folds)
                   = Inr (m, X, y)
                \<and> Saved_model (path_join out_path best_model_fn) m
                   \<in> set (snd (determine_best_model api fs data models model_names
                         feature_columns labels out_path best_model_fn save_performances
                         performances_fn num_folds))"
    unfolding r by simp
next
  assume "\<not> os_path_exists fs out
        \<and> importances_frame columns' (permutation_importance api model X' y' n_repeats random_state)
            = Inr df
        \<and> plot df (case display of None \<Rightarrow> columns'
                                 | Some d \<Rightarrow> if d = [] then columns' else d) = None"
  then show "assess_model_feature_importances api plot fs model X' y' columns' display (Some out)
              importances_fn figure_out_path figure_fn n_repeats random_state
            = (Inr (permutation_importance api model X' y' n_repeats random_state),
               [Printed ''Variable out_path not valid path in directory, not saving output dataframe...''])"
    by (simp add: assess_model_feature_importances_def Let_def)
qed

text \<open>
  The three constant regressors with and without the flag, and the importances of the
  selected one with an output path that does not exist.
\<close>
theorem persistence_gating_witness:
  "getitem four_rows [''x''] = Inr [[10], [20], [30], [40]]
   \<and> getitem four_rows [''y''] = Inr [[1], [2], [3], [4]]
   \<and> model_loop dummy_sklearn [[10], [20], [30], [40]] [[1], [2], [3], [4]] 2
        (zip three_names three_dummies) 0 three_dummies (zero_performances (length three_dummies))
       = Inr ([Dummy 0 2, Dummy 2 2, Dummy 3 2],
          \<lparr>mean_abs_err = [5/2, 1, 1], mean_sq_err = [15/2, 3/2, 3/2],
           mean_abs_percentage_err = [- 9, - 1, - 9],
           max_err = [3, 3/2, 3/2], rsq = [- 9, - 1, - 9]\<rparr>)
   \<and> three_dummies \<noteq> [] \<and> length three_names = length three_dummies
   \<and> can_write only_out (path_join ''out'' ''model_performances.csv'')
   \<and> can_write only_out (path_join ''out'' ''best_model.joblib'')
   \<and> Saved_performances (path_join ''out'' ''model_performances.csv'') three_names
          \<lparr>mean_abs_err = [5/2, 1, 1], mean_sq_err = [15/2, 3/2, 3/2],
           mean_abs_percentage_err = [- 9, - 1, - 9],
           max_err = [3, 3/2, 3/2], rsq = [- 9, - 1, - 9]\<rparr>
         \<in> set (snd (determine_best_model dummy_sklearn only_out four_rows three_dummies three_names
               [''x''] [''y''] ''out'' ''best_model.joblib'' True ''model_performances.csv'' 2))
   \<and> fst (determine_best_model dummy_sklearn only_out four_rows three_dummies three_names
          [''x''] [''y''] ''out'' ''best_model.joblib'' False ''model_performances.csv'' 2)
     = Inr (Dummy 2 4, [[10], [20], [30], [40]], [[1], [2], [3], [4]])
   \<and> Saved_model (path_join ''out'' ''best_model.joblib'') (Dummy 2 4)
         \<in> set (snd (determine_best_model dummy_sklearn only_out four_rows three_dummies three_names
               [''x''] [''y''] ''out'' ''best_model.joblib'' False ''model_performances.csv'' 2))
   \<and> \<not> os_path_exists only_out ''results''
   \<and> importances_frame [''x'']
        (permutation_importance dummy_sklearn (Dummy 2 4) [[10], [20], [30], [40]]
           (Y2d [[1], [2], [3], [4]]) 3 42) = Inr [(''x'', [0, 0, 0])]
   \<and> box_plot [(''x'', [0, 0, 0])] [''x''] = None
   \<and> assess_model_feature_importances dummy_sklearn box_plot only_out (Dummy 2 4)
        [[10], [20], [30], [40]] (Y2d [[1], [2], [3], [4]]) [''x''] None (Some ''results'')
        ''model_feature_importances.csv'' None ''model_feature_importances.png'' 3 42
      = (Inr [[0, 0, 0]],
         [Printed ''Variable out_path not valid path in directory, not saving output dataframe...''])"
proof -
  let ?X = "[[10], [20], [30], [40]] :: real list list"
  let ?y = "[[1], [2], [3], [4]] :: real list list"
  let ?perf = "\<lparr>mean_abs_err = [5/2, 1, 1], mean_sq_err = [15/2, 3/2, 3/2],
           mean_abs_percentage_err = [- 9, - 1, - 9],
           max_err = [3, 3/2, 3/2], rsq = [- 9, - 1, - 9] :: real list\<rparr>"
  have h4: "three_dummies \<noteq> []" by (simp add: three_dummies_def)
  have h5: "length three_names = length three_dummies" by (simp add: three_lengths)
  have w1: "can_write only_out (path_join ''out'' ''model_performances.csv'')"
    by (simp add: joined_paths can_write_out)
  have w2: "can_write only_out (path_join ''out'' ''best_model.joblib'')"
    by (simp add: joined_paths can_write_out)
  have nx: "\<not> os_path_exists only_out ''results''" by (simp add: only_out_def)
  have imp: "permutation_importance dummy_sklearn (Dummy 2 4) ?X (Y2d ?y) 3 42 = [[0, 0, 0]]"
    by (simp add: importance_dummy numeral_3_eq_3)
  have fr: "importances_frame [''x'']
        (permutation_importance dummy_sklearn (Dummy 2 4) ?X (Y2d ?y) 3 42) = Inr [(''x'', [0, 0, 0])]"
    by (simp add: imp)
  have bp: "box_plot [(''x'', [0, 0, 0])] [''x''] = None" by (simp add: box_plot_def)
  have bp': "box_plot [(''x'', [0, 0, 0])]
       (case None of None \<Rightarrow> [''x''] | Some d \<Rightarrow> if d = [] then [''x''] else d) = None"
    using bp by simp
  note inst = persistence_gating[where api = dummy_sklearn and fs = only_out and data = four_rows
      and models = three_dummies and model_names = three_names and feature_columns = "[''x'']"
      and labels = "[''y'']" and out_path = "''out''" and best_model_fn = "''best_model.joblib''"
      and performances_fn = "''model_performances.csv''" and num_folds = 2
      and X = "?X" and y = "?y" and models' = "[Dummy 0 2, Dummy 2 2, Dummy 3 2]"
      and perf = "?perf" and save_performances = False and out = "''results''"
      and columns' = "[''x'']" and model = "Dummy 2 4" and X' = "?X" and y' = "Y2d ?y"
      and n_repeats = 3 and random_state = 42 and df = "[(''x'', [0, 0, 0])]"
      and plot = box_plot and display = None
      and importances_fn = "''model_feature_importances.csv''" and figure_out_path = None
      and figure_fn = "''model_feature_importances.png''"]
  from inst four_rows_features four_rows_labels model_loop_three_dummies h5 w1
  have c2: "Saved_performances (path_join ''out'' ''model_performances.csv'') three_names ?perf
         \<in> set (snd (determine_best_model dummy_sklearn only_out four_rows three_dummies three_names
               [''x''] [''y''] ''out'' ''best_model.joblib'' True ''model_performances.csv'' 2))"
    by blast
  from inst four_rows_features four_rows_labels model_loop_three_dummies h4 h5 w2
  obtain m where c3: "fst (determine_best_model dummy_sklearn only_out four_rows three_dummies
          three_names [''x''] [''y''] ''out'' ''best_model.joblib'' False
          ''model_performances.csv'' 2) = Inr (m, ?X, ?y)"
       "Saved_model (path_join ''out'' ''best_model.joblib'') m
         \<in> set (snd (determine_best_model dummy_sklearn only_out four_rows three_dummies three_names
               [''x''] [''y''] ''out'' ''best_model.joblib'' False ''model_performances.csv'' 2))"
    by blast
  have m: "m = Dummy 2 4" using c3(1) by (simp add: determine_best_model_three_dummies)
  from inst nx fr bp' have c4: "assess_model_feature_importances dummy_sklearn box_plot only_out
        (Dummy 2 4) ?X (Y2d ?y) [''x''] None (Some ''results'') ''model_feature_importances.csv''
        None ''model_feature_importances.png'' 3 42
      = (Inr (permutation_importance dummy_sklearn (Dummy 2 4) ?X (Y2d ?y) 3 42),
         [Printed ''Variable out_path not valid path in directory, not saving output dataframe...''])"
    by blast
  from four_rows_features four_rows_labels model_loop_three_dummies h4 h5 w1 w2 c2
    c3[unfolded m] nx fr bp c4[unfolded imp]
  show ?thesis by blast
qed

end
